theory Spec2Isabelle
  imports Complex_Main "HOL-Library.Multiset" "HOL-Library.Char_ord" "HOL-Library.List_Lexorder"
begin

section \<open>The data model of \<open>visualization_app.py\<close>\<close>

text \<open>
  The script reads one CSV file into a pandas DataFrame \<open>df_features\<close> and derives every
  figure of the dashboard from it. A DataFrame is modelled as the list of its rows, in
  file order; a row is a record holding the nine columns the script reads by name, typed
  as the data model of the specification types them, and the remaining columns of the
  file as an association list from column name to raw text.

  Floating-point columns are modelled by \<open>real\<close>: comparisons, sums and quotients are the
  exact ones, and the rounding of IEEE doubles is left out. A missing cell (pandas' NaN)
  is outside the data model, with one exception: the mean of an empty column, which pandas
  returns as NaN, is the value \<open>None\<close>.
\<close>

record CustomerRecord =
  Customer_ID :: int
  is_churned :: bool
  predicted_churn :: bool
  churn_probability :: real
  Recency :: real
  Frequency :: int
  Monetary :: real
  Tenure :: real
  PrimaryCountry_Grouped_Original :: string
  other_columns :: "(string \<times> string) list"

type_synonym DataFrame = "CustomerRecord list"

text \<open>The constraint of the data model on a row: a probability lies in \<open>[0, 1]\<close>.\<close>

definition well_formed :: "DataFrame \<Rightarrow> bool" where
  "well_formed D = list_all (\<lambda>r. 0 \<le> churn_probability r \<and> churn_probability r \<le> 1) D"

text \<open>\<open>df.empty\<close>: no rows (the columns of a row are fixed by the record).\<close>

definition empty :: "DataFrame \<Rightarrow> bool" where
  "empty df = (df = [])"

subsection \<open>The library operations the script calls\<close>

text \<open>
  \<open>Series.mean()\<close>: the sum over the count; NaN (\<open>None\<close>) on an empty series.
  \<open>Series.sum()\<close> of a 0/1 column, \<open>Series.nunique()\<close>, and the 0/1 reading of a
  boolean column.
\<close>

definition mean :: "real list \<Rightarrow> real option" where
  "mean xs = (if xs = [] then None else Some (sum_list xs / real (length xs)))"

definition nunique :: "'a list \<Rightarrow> nat" where
  "nunique xs = length (remdups xs)"

definition as_number :: "bool \<Rightarrow> real" where
  "as_number b = (if b then 1 else 0)"

definition as_count :: "bool \<Rightarrow> nat" where
  "as_count b = (if b then 1 else 0)"

text \<open>
  \<open>sort_values(..., ascending=False)\<close> is called with the default \<open>kind='quicksort'\<close>, for
  which pandas promises a descending rearrangement of the rows and nothing about the
  order of rows with equal keys. The sort is therefore a parameter \<open>srt\<close> of every
  definition that calls it, and \<open>sort_values_desc key srt\<close> is what pandas promises of it.
\<close>

definition sort_values_desc :: "('a \<Rightarrow> real) \<Rightarrow> ('a list \<Rightarrow> 'a list) \<Rightarrow> bool" where
  "sort_values_desc key srt =
     (\<forall>xs. mset (srt xs) = mset xs \<and> sorted_wrt (\<lambda>a b. key b \<le> key a) (srt xs))"

text \<open>
  Two sorts that keep the promise. \<open>stable_desc\<close> is pandas' scheme for a descending
  sort run with a stable kind (reverse, sort ascending, reverse): equal keys keep the
  order of the input. \<open>reversing_desc\<close> sorts ascending and reads the result backwards:
  equal keys come out in the opposite order.
\<close>

definition stable_desc :: "('a \<Rightarrow> real) \<Rightarrow> 'a list \<Rightarrow> 'a list" where
  "stable_desc key xs = rev (sort_key key (rev xs))"

definition reversing_desc :: "('a \<Rightarrow> real) \<Rightarrow> 'a list \<Rightarrow> 'a list" where
  "reversing_desc key xs = rev (sort_key key xs)"

subsection \<open>Loading the data\<close>

text \<open>
  What \<open>pd.read_csv\<close> does is the input of the model: it returns a frame, or raises
  \<open>FileNotFoundError\<close>, or raises another \<open>Exception\<close> whose text is \<open>e\<close>. A Python
  call returns a value or raises: \<open>Inl\<close> is the exception that leaves the function.
\<close>

datatype exn = FileNotFoundError | Exception string

type_synonym 'a raises = "exn + 'a"

text \<open>The messages \<open>load_data\<close> hands to \<open>st.error\<close>.\<close>

definition not_found_message :: string where
  "not_found_message =
     ''Error: 'customer_churn_predictions.csv' not found. Please ensure 02_feature_engineering.ipynb and 04_dashboard_insights.ipynb were run.''"

definition unreadable_message :: "string \<Rightarrow> string" where
  "unreadable_message e = ''Error loading customer churn predictions data: '' @ e"

text \<open>
  \<open>load_data\<close>: the \<open>try\<close> returns the frame read; the first handler takes
  \<open>FileNotFoundError\<close>, the second every other \<open>Exception\<close>; both report with \<open>st.error\<close>
  and return \<open>pd.DataFrame()\<close>, the frame with no rows. The result is the list of
  reports and the frame.
\<close>

fun load_data :: "DataFrame raises \<Rightarrow> (string list \<times> DataFrame) raises" where
  "load_data (Inr df) = Inr ([], df)"
| "load_data (Inl FileNotFoundError) = Inr ([not_found_message], [])"
| "load_data (Inl (Exception e)) = Inr ([unreadable_message e], [])"

subsection \<open>Feature importance\<close>

definition feature_importance_df :: "(string \<times> real) list" where
  "feature_importance_df =
     zip [''Recency'', ''Frequency'', ''Monetary'', ''Tenure''] [0.40, 0.30, 0.20, 0.10]"

text \<open>The rows the bar chart is given: \<open>feature_importance_df.head(10)\<close>.\<close>

definition fig_importance :: "(string \<times> real) list" where
  "fig_importance = take 10 feature_importance_df"

subsection \<open>Overview metrics\<close>

definition total_customers :: "DataFrame \<Rightarrow> nat" where
  "total_customers df_features = nunique (map Customer_ID df_features)"

definition actual_churn_rate :: "DataFrame \<Rightarrow> real option" where
  "actual_churn_rate df_features =
     map_option (\<lambda>m. m * 100) (mean (map (\<lambda>r. as_number (is_churned r)) df_features))"

definition predicted_churn_rate :: "DataFrame \<Rightarrow> real option" where
  "predicted_churn_rate df_features =
     map_option (\<lambda>m. m * 100) (mean (map (\<lambda>r. as_number (predicted_churn r)) df_features))"

definition predicted_churners :: "DataFrame \<Rightarrow> nat" where
  "predicted_churners df_features = sum_list (map (\<lambda>r. as_count (predicted_churn r)) df_features)"

subsection \<open>Churn by country\<close>

text \<open>
  \<open>groupby('PrimaryCountry_Grouped_Original')['is_churned'].mean()\<close>: one group per
  value of the column that occurs, the groups in ascending order of their key, each with
  the mean of \<open>is_churned\<close> over its rows. A key with no row has no group.
\<close>

definition groupby_mean :: "DataFrame \<Rightarrow> (string \<times> real) list" where
  "groupby_mean df =
     List.map_filter
       (\<lambda>k. map_option (Pair k)
          (mean (map (\<lambda>r. as_number (is_churned r))
             (filter (\<lambda>r. PrimaryCountry_Grouped_Original r = k) df))))
       (sort (remdups (map PrimaryCountry_Grouped_Original df)))"

text \<open>
  The means are sorted in descending order, the index becomes a column again, and the
  column of means is multiplied by 100.
\<close>

definition churn_by_country ::
  "((string \<times> real) list \<Rightarrow> (string \<times> real) list) \<Rightarrow> DataFrame \<Rightarrow> (string \<times> real) list" where
  "churn_by_country srt df_features =
     map (\<lambda>(country, m). (country, m * 100)) (srt (groupby_mean df_features))"

subsection \<open>At-risk customers\<close>

text \<open>
  The slider that supplies \<open>churn_threshold\<close> on the page: the bounds and the default
  it is declared with. The at-risk frame below is computed from the threshold as an
  argument, whoever supplies it.
\<close>

definition slider_min_value :: real where "slider_min_value = 0.0"
definition slider_max_value :: real where "slider_max_value = 1.0"
definition slider_value :: real where "slider_value = 0.5"

definition slider_range :: "real \<Rightarrow> bool" where
  "slider_range t = (slider_min_value \<le> t \<and> t \<le> slider_max_value)"

text \<open>
  \<open>df_features[df_features['churn_probability'] >= churn_threshold]\<close> keeps the rows of
  the mask in frame order; \<open>sort_values(by='churn_probability', ascending=False)\<close> sorts
  them.
\<close>

definition at_risk_customers_filtered ::
  "(DataFrame \<Rightarrow> DataFrame) \<Rightarrow> DataFrame \<Rightarrow> real \<Rightarrow> DataFrame" where
  "at_risk_customers_filtered srt df_features churn_threshold =
     srt (filter (\<lambda>r. churn_threshold \<le> churn_probability r) df_features)"

text \<open>The number \<open>N\<close> of the line "Showing N customers ...": \<open>len\<close> of the filtered frame.\<close>

definition showing :: "(DataFrame \<Rightarrow> DataFrame) \<Rightarrow> DataFrame \<Rightarrow> real \<Rightarrow> nat" where
  "showing srt df_features churn_threshold =
     length (at_risk_customers_filtered srt df_features churn_threshold)"

text \<open>
  A cell of a displayed table, and \<open>row[c]\<close>: the value of column \<open>c\<close> of a row, \<open>None\<close>
  when the frame has no such column (pandas raises \<open>KeyError\<close>).
\<close>

datatype cell = IntCell int | FloatCell real | BoolCell bool | StrCell string

definition column :: "CustomerRecord \<Rightarrow> string \<Rightarrow> cell option" where
  "column r c =
     (if c = ''Customer ID'' then Some (IntCell (Customer_ID r))
      else if c = ''is_churned'' then Some (BoolCell (is_churned r))
      else if c = ''predicted_churn'' then Some (BoolCell (predicted_churn r))
      else if c = ''churn_probability'' then Some (FloatCell (churn_probability r))
      else if c = ''Recency'' then Some (FloatCell (Recency r))
      else if c = ''Frequency'' then Some (IntCell (Frequency r))
      else if c = ''Monetary'' then Some (FloatCell (Monetary r))
      else if c = ''Tenure'' then Some (FloatCell (Tenure r))
      else if c = ''PrimaryCountry_Grouped_Original''
        then Some (StrCell (PrimaryCountry_Grouped_Original r))
      else map_option StrCell (map_of (other_columns r) c))"

text \<open>\<open>df[cols]\<close> on one row: the named cells in the order of \<open>cols\<close>, or \<open>KeyError\<close>.\<close>

fun getitem :: "string list \<Rightarrow> CustomerRecord \<Rightarrow> (string \<times> cell) list option" where
  "getitem [] r = Some []"
| "getitem (c # cs) r =
     (case column r c of
        None \<Rightarrow> None
      | Some v \<Rightarrow> map_option (\<lambda>cells. (c, v) # cells) (getitem cs r))"

fun getitem_frame :: "string list \<Rightarrow> DataFrame \<Rightarrow> (string \<times> cell) list list option" where
  "getitem_frame cols [] = Some []"
| "getitem_frame cols (r # rs) =
     (case getitem cols r of
        None \<Rightarrow> None
      | Some row \<Rightarrow> map_option (\<lambda>rows. row # rows) (getitem_frame cols rs))"

definition display_cols :: "string list" where
  "display_cols =
     [''Customer ID'', ''churn_probability'', ''predicted_churn'',
      ''Recency'', ''Frequency'', ''Monetary'', ''Tenure'', ''PrimaryCountry_Grouped_Original'']"

text \<open>
  What the at-risk section shows under its count: the table
  \<open>at_risk_customers_filtered[display_cols].head(500)\<close> when the filtered frame has a
  row, a sentence otherwise.
\<close>

datatype widget =
    Dataframe "(string \<times> cell) list list"
  | Write string
  | KeyError

definition at_risk_table :: "(DataFrame \<Rightarrow> DataFrame) \<Rightarrow> DataFrame \<Rightarrow> real \<Rightarrow> widget" where
  "at_risk_table srt df_features churn_threshold =
     (let filtered = at_risk_customers_filtered srt df_features churn_threshold
      in if \<not> empty filtered
         then (case getitem_frame display_cols filtered of
                 None \<Rightarrow> KeyError
               | Some rows \<Rightarrow> Dataframe (take 500 rows))
         else Write ''No customers identified as 'at-risk' with the current threshold.'')"

subsection \<open>The script\<close>

text \<open>
  Everything the page shows once the data is loaded, and the run of the script: it loads
  the data and stops (\<open>st.stop()\<close>) when the frame is empty, before any figure is computed.
\<close>

record dashboard =
  importance_chart :: "(string \<times> real) list"
  metric_total_customers :: nat
  metric_actual_churn_rate :: "real option"
  metric_predicted_churn_rate :: "real option"
  metric_predicted_churners :: nat
  country_chart :: "(string \<times> real) list"
  info_showing :: nat
  at_risk_widget :: widget

definition render ::
  "((string \<times> real) list \<Rightarrow> (string \<times> real) list) \<Rightarrow> (DataFrame \<Rightarrow> DataFrame) \<Rightarrow>
   DataFrame \<Rightarrow> real \<Rightarrow> dashboard" where
  "render srt_series srt_frame df_features churn_threshold =
     \<lparr> importance_chart = fig_importance,
       metric_total_customers = total_customers df_features,
       metric_actual_churn_rate = actual_churn_rate df_features,
       metric_predicted_churn_rate = predicted_churn_rate df_features,
       metric_predicted_churners = predicted_churners df_features,
       country_chart = churn_by_country srt_series df_features,
       info_showing = showing srt_frame df_features churn_threshold,
       at_risk_widget = at_risk_table srt_frame df_features churn_threshold \<rparr>"

datatype session =
    Stopped "string list"
  | Rendered "string list" dashboard
  | Raised exn

definition script ::
  "((string \<times> real) list \<Rightarrow> (string \<times> real) list) \<Rightarrow> (DataFrame \<Rightarrow> DataFrame) \<Rightarrow>
   DataFrame raises \<Rightarrow> real \<Rightarrow> session" where
  "script srt_series srt_frame read_csv churn_threshold =
     (case load_data read_csv of
        Inl e \<Rightarrow> Raised e
      | Inr (errors, df_features) \<Rightarrow>
          if empty df_features then Stopped errors
          else Rendered errors (render srt_series srt_frame df_features churn_threshold))"

subsection \<open>Example datasets\<close>

text \<open>
  A row with the columns the examples vary, the others zero; and the datasets of the
  scenarios: ten rows of which three churned; five rows of the UK (two churned) and three
  of France (all churned); six hundred rows of probability 0.7; one row of
  probability 1.
\<close>

definition example_row :: "int \<Rightarrow> bool \<Rightarrow> bool \<Rightarrow> real \<Rightarrow> string \<Rightarrow> CustomerRecord" where
  "example_row cid churned predicted p country =
     \<lparr> Customer_ID = cid, is_churned = churned, predicted_churn = predicted,
       churn_probability = p, Recency = 0, Frequency = 0, Monetary = 0, Tenure = 0,
       PrimaryCountry_Grouped_Original = country, other_columns = [] \<rparr>"

definition scenario_A :: DataFrame where
  "scenario_A =
     [example_row 1 True True 0.8 ''UK'', example_row 2 False False 0.1 ''UK'',
      example_row 3 False True 0.6 ''UK'', example_row 4 True False 0.4 ''UK'',
      example_row 5 False False 0.2 ''UK'', example_row 6 False False 0.3 ''UK'',
      example_row 7 True True 0.9 ''UK'', example_row 8 False False 0.1 ''UK'',
      example_row 9 False False 0.2 ''UK'', example_row 9 False False 0.2 ''UK'']"

definition scenario_B :: DataFrame where
  "scenario_B =
     [example_row 1 True False 0.2 ''UK'', example_row 2 False False 0.2 ''UK'',
      example_row 3 True True 0.9 ''France'', example_row 4 False False 0.2 ''UK'',
      example_row 5 True True 0.9 ''France'', example_row 6 True True 0.9 ''UK'',
      example_row 7 True True 0.9 ''France'', example_row 8 False False 0.2 ''UK'']"

definition scenario_C :: DataFrame where
  "scenario_C = replicate 600 (example_row 1 True True 0.7 ''UK'')"


text \<open>A row of a file that has one more column than the script reads.\<close>

definition extra_row :: CustomerRecord where
  "extra_row =
     \<lparr> Customer_ID = 17850, is_churned = True, predicted_churn = True,
       churn_probability = 0.75, Recency = 301, Frequency = 12, Monetary = 5288.63,
       Tenure = 372, PrimaryCountry_Grouped_Original = ''United Kingdom'',
       other_columns = [(''InvoiceCount'', ''12'')] \<rparr>"

section \<open>Properties\<close>

subsection \<open>The sorts\<close>

lemma stable_desc_sorts: "sort_values_desc key (stable_desc key)"
  unfolding sort_values_desc_def stable_desc_def
proof (intro allI conjI)
  fix xs :: "'a list"
  show "mset (rev (sort_key key (rev xs))) = mset xs" by simp
  have "sorted (map key (sort_key key (rev xs)))" by simp
  then have "sorted_wrt (\<lambda>a b. key a \<le> key b) (sort_key key (rev xs))"
    by (simp add: sorted_wrt_map)
  then show "sorted_wrt (\<lambda>a b. key b \<le> key a) (rev (sort_key key (rev xs)))"
    by (simp add: sorted_wrt_rev)
qed

lemma reversing_desc_sorts: "sort_values_desc key (reversing_desc key)"
  unfolding sort_values_desc_def reversing_desc_def
proof (intro allI conjI)
  fix xs :: "'a list"
  show "mset (rev (sort_key key xs)) = mset xs" by simp
  have "sorted (map key (sort_key key xs))" by simp
  then have "sorted_wrt (\<lambda>a b. key a \<le> key b) (sort_key key xs)"
    by (simp add: sorted_wrt_map)
  then show "sorted_wrt (\<lambda>a b. key b \<le> key a) (rev (sort_key key xs))"
    by (simp add: sorted_wrt_rev)
qed

lemma stable_desc_keeps_ties:
  "filter (\<lambda>x. key x = k) (stable_desc key xs) = filter (\<lambda>x. key x = k) xs"
  unfolding stable_desc_def
  by (simp add: rev_filter [symmetric] sort_key_stable filter_sort)

lemma sort_values_desc_mset: "sort_values_desc key srt \<Longrightarrow> mset (srt xs) = mset xs"
  by (simp add: sort_values_desc_def)

lemma sort_values_desc_sorted:
  "sort_values_desc key srt \<Longrightarrow> sorted_wrt (\<lambda>a b. key b \<le> key a) (srt xs)"
  by (simp add: sort_values_desc_def)

lemma sort_values_desc_length: "sort_values_desc key srt \<Longrightarrow> length (srt xs) = length xs"
  by (metis sort_values_desc_mset mset_eq_length)

lemma sort_values_desc_set: "sort_values_desc key srt \<Longrightarrow> set (srt xs) = set xs"
  by (metis sort_values_desc_mset mset_eq_setD)


text \<open>Two rows of different keys leave any such sort in one order.\<close>

lemma sort_values_desc_pair:
  assumes "sort_values_desc key srt" "key b < key a"
  shows "srt [a, b] = [a, b]"
proof -
  from assms(1) have m: "mset (srt [a, b]) = mset [a, b]"
    and s: "sorted_wrt (\<lambda>x y. key y \<le> key x) (srt [a, b])"
    by (simp_all add: sort_values_desc_def)
  from assms(1) have "length (srt [a, b]) = 2"
    by (simp add: sort_values_desc_length)
  then obtain u v where uv: "srt [a, b] = [u, v]"
    by (metis (no_types, opaque_lifting) length_0_conv length_Suc_conv numeral_2_eq_2)
  with m have "{#u, v#} = {#a, b#}" by simp
  then have "(u = a \<and> v = b) \<or> (u = b \<and> v = a)"
    by (auto simp: add_eq_conv_ex)
  with s uv assms(2) show ?thesis by auto
qed

subsection \<open>The threshold filter\<close>

text \<open>
  C1. For every dataset and threshold, the at-risk frame holds exactly the rows whose
  \<open>churn_probability\<close> is greater than or equal to the threshold, each as often as the
  dataset holds it. On a dataset of the data model (probabilities in \<open>[0, 1]\<close>) the
  threshold 0.0 keeps every row, so the count is the size of the dataset, and the
  threshold 1.0 keeps exactly the rows of probability 1.0.
\<close>

theorem at_risk_keeps_rows_at_or_above_threshold:
  assumes "sort_values_desc churn_probability srt"
  shows "mset (at_risk_customers_filtered srt D t) = {#r \<in># mset D. t \<le> churn_probability r#}
    \<and> (well_formed D \<longrightarrow>
          mset (at_risk_customers_filtered srt D 0.0) = mset D \<and> showing srt D 0.0 = length D)
    \<and> (well_formed D \<longrightarrow>
          mset (at_risk_customers_filtered srt D 1.0) = {#r \<in># mset D. churn_probability r = 1.0#})"
proof (intro conjI impI)
  show "mset (at_risk_customers_filtered srt D t) = {#r \<in># mset D. t \<le> churn_probability r#}"
    using assms by (simp add: at_risk_customers_filtered_def sort_values_desc_mset)
next
  assume wf: "well_formed D"
  then have all: "filter (\<lambda>r. 0 \<le> churn_probability r) D = D"
    by (auto simp: well_formed_def list_all_iff)
  then show "mset (at_risk_customers_filtered srt D 0.0) = mset D"
    using assms by (simp add: at_risk_customers_filtered_def sort_values_desc_mset del: mset_filter)
  show "showing srt D 0.0 = length D"
    using assms all by (simp add: showing_def at_risk_customers_filtered_def sort_values_desc_length)
next
  assume wf: "well_formed D"
  then have "filter (\<lambda>r. 1 \<le> churn_probability r) D = filter (\<lambda>r. churn_probability r = 1) D"
    by (intro filter_cong) (auto simp: well_formed_def list_all_iff)
  then show "mset (at_risk_customers_filtered srt D 1.0) = {#r \<in># mset D. churn_probability r = 1.0#}"
    using assms by (simp add: at_risk_customers_filtered_def sort_values_desc_mset del: mset_filter) simp
qed

theorem at_risk_keeps_rows_witness:
  "sort_values_desc churn_probability (stable_desc churn_probability)
   \<and> well_formed scenario_B
   \<and> mset (at_risk_customers_filtered (stable_desc churn_probability) scenario_B 0.5) =
       {#r \<in># mset scenario_B. 0.5 \<le> churn_probability r#}
   \<and> showing (stable_desc churn_probability) scenario_B 0.0 = 8
   \<and> mset (at_risk_customers_filtered (stable_desc churn_probability) scenario_B 1.0) = {#}"
proof -
  have wf: "well_formed scenario_B"
    by (simp add: well_formed_def scenario_B_def example_row_def)
  have len: "length scenario_B = 8" by (simp add: scenario_B_def)
  have none: "{#r \<in># mset scenario_B. churn_probability r = 1.0#} = {#}"
    by (simp add: scenario_B_def example_row_def)
  from at_risk_keeps_rows_at_or_above_threshold [OF stable_desc_sorts, of scenario_B "0.5"] wf len none
  show ?thesis by (simp add: stable_desc_sorts)
qed

text \<open>
  C5. For thresholds \<open>t1 < t2\<close>, the number of rows of the at-risk frame at \<open>t1\<close>, before
  any truncation, is at least the number at \<open>t2\<close>.
\<close>

theorem showing_antitone_in_threshold:
  assumes "sort_values_desc churn_probability srt" "t1 < t2"
  shows "showing srt D t2 \<le> showing srt D t1"
proof -
  have "length (filter (\<lambda>r. t2 \<le> churn_probability r) D)
      \<le> length (filter (\<lambda>r. t1 \<le> churn_probability r) D)"
    using assms(2) by (induction D) auto
  then show ?thesis
    using assms(1) by (simp add: showing_def at_risk_customers_filtered_def sort_values_desc_length)
qed

theorem showing_antitone_witness:
  "sort_values_desc churn_probability (stable_desc churn_probability) \<and> (0.5::real) < 0.95
   \<and> showing (stable_desc churn_probability) scenario_B 0.95
       \<le> showing (stable_desc churn_probability) scenario_B 0.5
   \<and> showing (stable_desc churn_probability) scenario_B 0.95 = 0
   \<and> showing (stable_desc churn_probability) scenario_B 0.5 = 4"
proof -
  have a: "showing (stable_desc churn_probability) scenario_B 0.5 = 4"
    by (simp add: showing_def at_risk_customers_filtered_def sort_values_desc_length [OF stable_desc_sorts]
        scenario_B_def example_row_def)
  have c: "showing (stable_desc churn_probability) scenario_B 0.95 = 0"
    by (simp add: showing_def at_risk_customers_filtered_def sort_values_desc_length [OF stable_desc_sorts]
        scenario_B_def example_row_def)
  have b: "(0.5::real) < 0.95" by simp
  from showing_antitone_in_threshold [OF stable_desc_sorts b, of scenario_B] a c
  show ?thesis by (simp add: stable_desc_sorts)
qed

subsection \<open>The order of the at-risk frame\<close>

text \<open>
  Whatever sort keeps the promise of \<open>sort_values\<close>, the at-risk frame is in descending
  order of \<open>churn_probability\<close>, and its rows of one probability are the filtered rows of
  that probability. Their order among themselves is the sort's: with \<open>stable_desc\<close> it
  is the order of the dataset.
\<close>

lemma at_risk_sorted_descending:
  assumes "sort_values_desc churn_probability srt"
  shows "sorted_wrt (\<lambda>a b. churn_probability b \<le> churn_probability a)
           (at_risk_customers_filtered srt D t)
    \<and> mset (filter (\<lambda>r. churn_probability r = p) (at_risk_customers_filtered srt D t))
        = mset (filter (\<lambda>r. churn_probability r = p) (filter (\<lambda>r. t \<le> churn_probability r) D))"
  using assms
  by (simp add: at_risk_customers_filtered_def sort_values_desc_sorted sort_values_desc_mset
      del: filter_filter)

lemma at_risk_stable_desc_keeps_ties:
  "filter (\<lambda>r. churn_probability r = p)
     (at_risk_customers_filtered (stable_desc churn_probability) D t)
   = filter (\<lambda>r. churn_probability r = p) (filter (\<lambda>r. t \<le> churn_probability r) D)"
  by (simp only: at_risk_customers_filtered_def stable_desc_keeps_ties)

subsection \<open>Thresholds outside the range \<open>[0.0, 1.0]\<close>\<close>




subsection \<open>The displayed table\<close>

text \<open>The eight display columns exist in every row, so the selection raises no \<open>KeyError\<close>.\<close>

lemma getitem_display_cols:
  "getitem display_cols r =
     Some [(''Customer ID'', IntCell (Customer_ID r)),
           (''churn_probability'', FloatCell (churn_probability r)),
           (''predicted_churn'', BoolCell (predicted_churn r)),
           (''Recency'', FloatCell (Recency r)),
           (''Frequency'', IntCell (Frequency r)),
           (''Monetary'', FloatCell (Monetary r)),
           (''Tenure'', FloatCell (Tenure r)),
           (''PrimaryCountry_Grouped_Original'', StrCell (PrimaryCountry_Grouped_Original r))]"
  by (simp add: display_cols_def column_def)

lemma getitem_frame_map:
  "(\<And>r. getitem cols r = Some (f r)) \<Longrightarrow> getitem_frame cols rs = Some (map f rs)"
  by (induction rs) simp_all

lemma getitem_keys: "getitem cols r = Some row \<Longrightarrow> map fst row = cols"
  by (induction cols arbitrary: row) (auto split: option.splits)

text \<open>
  C2. The count of the line "Showing N customers" is the number of rows that pass the
  filter, before any truncation; the displayed table has the first 500 of them at most
  (there is no table when the count is 0). With 600 rows of probability at least 0.5,
  the count at the threshold 0.5 is 600 and the table has 500 rows.
\<close>

theorem showing_counts_before_truncation:
  assumes "sort_values_desc churn_probability srt"
  shows "showing srt D t = length (filter (\<lambda>r. t \<le> churn_probability r) D)
    \<and> (case at_risk_table srt D t of
          Dataframe rows \<Rightarrow> length rows = min 500 (showing srt D t) \<and> length rows \<le> 500
        | Write s \<Rightarrow> showing srt D t = 0
        | KeyError \<Rightarrow> False)
    \<and> (length (filter (\<lambda>r. 0.5 \<le> churn_probability r) D) = 600 \<longrightarrow>
          showing srt D 0.5 = 600
          \<and> (\<exists>rows. at_risk_table srt D 0.5 = Dataframe rows \<and> length rows = 500))"
proof -
  have count: "showing srt D u = length (filter (\<lambda>r. u \<le> churn_probability r) D)" for u
    using assms by (simp add: showing_def at_risk_customers_filtered_def sort_values_desc_length)
  have frame: "getitem_frame display_cols rs = Some (map (\<lambda>r. the (getitem display_cols r)) rs)" for rs
    by (rule getitem_frame_map) (simp add: getitem_display_cols)
  have table: "at_risk_table srt D u =
      (if at_risk_customers_filtered srt D u = []
       then Write ''No customers identified as 'at-risk' with the current threshold.''
       else Dataframe (take 500 (map (\<lambda>r. the (getitem display_cols r))
              (at_risk_customers_filtered srt D u))))" for u
    by (simp add: at_risk_table_def Let_def empty_def frame)
  have shown: "case at_risk_table srt D u of
          Dataframe rows \<Rightarrow> length rows = min 500 (showing srt D u) \<and> length rows \<le> 500
        | Write s \<Rightarrow> showing srt D u = 0
        | KeyError \<Rightarrow> False" for u
    by (simp add: table showing_def min.commute)
  have "showing srt D 0.5 = 600
        \<and> (\<exists>rows. at_risk_table srt D 0.5 = Dataframe rows \<and> length rows = 500)"
    if "length (filter (\<lambda>r. 0.5 \<le> churn_probability r) D) = 600"
  proof -
    from that count [of "0.5"] have n: "showing srt D 0.5 = 600" by simp
    then have "at_risk_customers_filtered srt D 0.5 \<noteq> []"
      by (auto simp: showing_def)
    with n show ?thesis
      by (simp add: table showing_def)
  qed
  with count [of t] shown [of t] show ?thesis by blast
qed

theorem showing_counts_before_truncation_witness:
  "sort_values_desc churn_probability (stable_desc churn_probability)
   \<and> length (filter (\<lambda>r. 0.5 \<le> churn_probability r) scenario_C) = 600
   \<and> showing (stable_desc churn_probability) scenario_C 0.5 = 600
   \<and> (\<exists>rows. at_risk_table (stable_desc churn_probability) scenario_C 0.5 = Dataframe rows
         \<and> length rows = 500)"
proof -
  have n: "length (filter (\<lambda>r. 0.5 \<le> churn_probability r) scenario_C) = 600"
    by (simp add: scenario_C_def example_row_def)
  from showing_counts_before_truncation [OF stable_desc_sorts, of scenario_C "0.5"] n
  show ?thesis by (simp add: stable_desc_sorts)
qed

text \<open>
  C10. When the at-risk frame has a row, the displayed table is the projection of its
  rows, in their order and cut at 500, onto the eight display columns in their fixed
  order: every displayed row has exactly these column names, so no other column of the
  dataset is shown. The rows of the at-risk frame themselves are rows of the dataset,
  with all their columns.
\<close>

theorem at_risk_table_projects_display_cols:
  assumes "sort_values_desc churn_probability srt"
    and "at_risk_customers_filtered srt D t \<noteq> []"
  shows "at_risk_table srt D t =
      Dataframe (take 500 (map
        (\<lambda>r. [(''Customer ID'', IntCell (Customer_ID r)),
              (''churn_probability'', FloatCell (churn_probability r)),
              (''predicted_churn'', BoolCell (predicted_churn r)),
              (''Recency'', FloatCell (Recency r)),
              (''Frequency'', IntCell (Frequency r)),
              (''Monetary'', FloatCell (Monetary r)),
              (''Tenure'', FloatCell (Tenure r)),
              (''PrimaryCountry_Grouped_Original'', StrCell (PrimaryCountry_Grouped_Original r))])
        (at_risk_customers_filtered srt D t)))
    \<and> (\<exists>rows. at_risk_table srt D t = Dataframe rows
          \<and> list_all (\<lambda>row. map fst row = display_cols) rows)
    \<and> set (at_risk_customers_filtered srt D t) \<subseteq> set D"
proof (intro conjI)
  let ?f = "\<lambda>r. [(''Customer ID'', IntCell (Customer_ID r)),
              (''churn_probability'', FloatCell (churn_probability r)),
              (''predicted_churn'', BoolCell (predicted_churn r)),
              (''Recency'', FloatCell (Recency r)),
              (''Frequency'', IntCell (Frequency r)),
              (''Monetary'', FloatCell (Monetary r)),
              (''Tenure'', FloatCell (Tenure r)),
              (''PrimaryCountry_Grouped_Original'', StrCell (PrimaryCountry_Grouped_Original r))]"
  have frame: "getitem_frame display_cols rs = Some (map ?f rs)" for rs
    by (rule getitem_frame_map) (rule getitem_display_cols)
  show table: "at_risk_table srt D t = Dataframe (take 500 (map ?f (at_risk_customers_filtered srt D t)))"
    using assms(2) by (simp add: at_risk_table_def Let_def empty_def frame)
  have "list_all (\<lambda>row. map fst row = display_cols)
          (take 500 (map ?f (at_risk_customers_filtered srt D t)))"
    by (auto simp: list_all_iff display_cols_def dest!: in_set_takeD)
  with table show "\<exists>rows. at_risk_table srt D t = Dataframe rows
          \<and> list_all (\<lambda>row. map fst row = display_cols) rows"
    by blast
  show "set (at_risk_customers_filtered srt D t) \<subseteq> set D"
    using assms(1) by (auto simp: at_risk_customers_filtered_def sort_values_desc_set)
qed

theorem at_risk_table_projects_witness:
  "sort_values_desc churn_probability (stable_desc churn_probability)
   \<and> at_risk_customers_filtered (stable_desc churn_probability) [extra_row] 0.5 = [extra_row]
   \<and> other_columns extra_row = [(''InvoiceCount'', ''12'')]
   \<and> at_risk_table (stable_desc churn_probability) [extra_row] 0.5 =
       Dataframe [[(''Customer ID'', IntCell 17850), (''churn_probability'', FloatCell 0.75),
                   (''predicted_churn'', BoolCell True), (''Recency'', FloatCell 301),
                   (''Frequency'', IntCell 12), (''Monetary'', FloatCell 5288.63),
                   (''Tenure'', FloatCell 372),
                   (''PrimaryCountry_Grouped_Original'', StrCell ''United Kingdom'')]]"
proof -
  have f: "at_risk_customers_filtered (stable_desc churn_probability) [extra_row] 0.5 = [extra_row]"
    by (simp add: at_risk_customers_filtered_def stable_desc_def extra_row_def)
  then have ne: "at_risk_customers_filtered (stable_desc churn_probability) [extra_row] 0.5 \<noteq> []"
    by simp
  from at_risk_table_projects_display_cols [OF stable_desc_sorts ne] f
  show ?thesis by (simp add: stable_desc_sorts extra_row_def)
qed

subsection \<open>Overview metrics\<close>

text \<open>The sum of a 0/1 column counts its positives, and their share lies in \<open>[0, 1]\<close>.\<close>

lemma sum_as_number: "sum_list (map (\<lambda>r. as_number (P r)) xs) = real (length (filter P xs))"
  by (induction xs) (simp_all add: as_number_def)

lemma sum_as_count: "sum_list (map (\<lambda>r. as_count (P r)) xs) = length (filter P xs)"
  by (induction xs) (simp_all add: as_count_def)

lemma mean_as_number:
  "xs \<noteq> [] \<Longrightarrow>
     mean (map (\<lambda>r. as_number (P r)) xs) = Some (real (length (filter P xs)) / real (length xs))"
  by (simp add: mean_def sum_as_number)

lemma share_bounds:
  "xs \<noteq> [] \<Longrightarrow> 0 \<le> real (length (filter P xs)) / real (length xs)
     \<and> real (length (filter P xs)) / real (length xs) \<le> 1"
  by (simp add: divide_le_eq)

text \<open>
  C8. On a dataset that is not empty: \<open>total_customers\<close> is the number of distinct
  \<open>Customer ID\<close> values; \<open>actual_churn_rate\<close> is 100 times the arithmetic mean of
  \<open>is_churned\<close> over all rows (the churned rows over all rows) and lies in \<open>[0, 100]\<close>;
  \<open>predicted_churn_rate\<close> is the same over \<open>predicted_churn\<close>; and \<open>predicted_churners\<close>
  is the sum of \<open>predicted_churn\<close> over all rows, the number of its positives.
\<close>

theorem overview_metrics:
  assumes "\<not> empty D"
  shows "total_customers D = card (Customer_ID ` set D)
    \<and> actual_churn_rate D = Some (100 * (real (length (filter is_churned D)) / real (length D)))
    \<and> (\<exists>rate. actual_churn_rate D = Some rate \<and> 0 \<le> rate \<and> rate \<le> 100)
    \<and> predicted_churn_rate D = Some (100 * (real (length (filter predicted_churn D)) / real (length D)))
    \<and> (\<exists>rate. predicted_churn_rate D = Some rate \<and> 0 \<le> rate \<and> rate \<le> 100)
    \<and> predicted_churners D = length (filter predicted_churn D)
    \<and> real (predicted_churners D) = (\<Sum>r\<leftarrow>D. as_number (predicted_churn r))"
proof -
  from assms have ne: "D \<noteq> []" by (simp add: empty_def)
  have total: "total_customers D = card (Customer_ID ` set D)"
    by (simp add: total_customers_def nunique_def length_remdups_card_conv)
  have actual: "actual_churn_rate D = Some (100 * (real (length (filter is_churned D)) / real (length D)))"
    using ne by (simp add: actual_churn_rate_def mean_as_number)
  have predicted: "predicted_churn_rate D = Some (100 * (real (length (filter predicted_churn D)) / real (length D)))"
    using ne by (simp add: predicted_churn_rate_def mean_as_number)
  have bounds: "0 \<le> 100 * (real (length (filter P D)) / real (length D))
      \<and> 100 * (real (length (filter P D)) / real (length D)) \<le> 100" for P
    using share_bounds [OF ne, of P] by simp
  have churners: "predicted_churners D = length (filter predicted_churn D)"
    by (simp add: predicted_churners_def sum_as_count)
  have sumform: "real (predicted_churners D) = (\<Sum>r\<leftarrow>D. as_number (predicted_churn r))"
    by (simp add: churners sum_as_number)
  from total actual predicted bounds [of is_churned] bounds [of predicted_churn] churners sumform
  show ?thesis by blast
qed

theorem overview_metrics_witness:
  "\<not> empty scenario_A \<and> length scenario_A = 10
   \<and> total_customers scenario_A = 9
   \<and> actual_churn_rate scenario_A = Some 30
   \<and> predicted_churn_rate scenario_A = Some 30
   \<and> predicted_churners scenario_A = 3"
proof -
  have ne: "\<not> empty scenario_A" by (simp add: empty_def scenario_A_def)
  have ids: "card (Customer_ID ` set scenario_A) = 9"
    by (simp add: scenario_A_def example_row_def)
  have len: "length scenario_A = 10" by (simp add: scenario_A_def)
  have churned: "length (filter is_churned scenario_A) = 3"
    by (simp add: scenario_A_def example_row_def)
  have predicted: "length (filter predicted_churn scenario_A) = 3"
    by (simp add: scenario_A_def example_row_def)
  from overview_metrics [OF ne] ids len churned predicted ne
  show ?thesis by simp
qed

subsection \<open>Feature importance\<close>

text \<open>
  C9. The feature importance table is a constant: the four pairs Recency 0.40,
  Frequency 0.30, Monetary 0.20, Tenure 0.10 in this order, which is descending by
  importance. The chart is given the table as it is (\<open>head(10)\<close> keeps all four rows),
  whatever the dataset, the threshold and the sorts.
\<close>

theorem feature_importance_is_static:
  "feature_importance_df =
     [(''Recency'', 0.40), (''Frequency'', 0.30), (''Monetary'', 0.20), (''Tenure'', 0.10)]
   \<and> length feature_importance_df = 4
   \<and> sorted_wrt (\<lambda>a b. snd b \<le> snd a) feature_importance_df
   \<and> fig_importance = feature_importance_df
   \<and> importance_chart (render srt_series srt_frame D t) = feature_importance_df"
  by (simp add: feature_importance_df_def fig_importance_def render_def)

subsection \<open>Loading and the empty dataset\<close>

text \<open>
  C7. \<open>load_data\<close> returns whatever \<open>read_csv\<close> does and never raises: on
  \<open>FileNotFoundError\<close> it reports the not-found message and returns the empty frame, on
  any other exception it reports a different message, which carries the exception's
  text, and returns the empty frame too. Whenever the frame returned is empty the script
  stops with the reports alone; a run that renders the dashboard has read a frame that
  is not empty and computes every figure from it.
\<close>

theorem load_data_never_raises:
  "(\<exists>errors df. load_data read_csv = Inr (errors, df))
   \<and> load_data (Inl FileNotFoundError) = Inr ([not_found_message], [])
   \<and> load_data (Inl (Exception e)) = Inr ([unreadable_message e], [])
   \<and> empty []
   \<and> not_found_message \<noteq> unreadable_message e
   \<and> (\<forall>errors df. load_data read_csv = Inr (errors, df) \<and> empty df \<longrightarrow>
          script srt_series srt_frame read_csv t = Stopped errors)
   \<and> (\<forall>errors d. script srt_series srt_frame read_csv t = Rendered errors d \<longrightarrow>
          (\<exists>df. read_csv = Inr df \<and> \<not> empty df \<and> errors = []
             \<and> d = render srt_series srt_frame df t))
   \<and> (\<forall>x. script srt_series srt_frame read_csv t \<noteq> Raised x)"
proof -
  have returns: "\<exists>errors df. load_data read_csv = Inr (errors, df)"
    by (cases read_csv rule: load_data.cases) simp_all
  have distinct_reports: "not_found_message \<noteq> unreadable_message e"
    by (simp add: not_found_message_def unreadable_message_def)
  have stops: "script srt_series srt_frame read_csv t = Stopped errors"
    if "load_data read_csv = Inr (errors, df) \<and> empty df" for errors df
    using that by (simp add: script_def)
  have renders: "\<exists>df. read_csv = Inr df \<and> \<not> empty df \<and> errors = []
             \<and> d = render srt_series srt_frame df t"
    if "script srt_series srt_frame read_csv t = Rendered errors d" for errors d
    using that
    by (cases read_csv rule: load_data.cases) (auto simp: script_def empty_def split: if_splits)
  have no_raise: "script srt_series srt_frame read_csv t \<noteq> Raised x" for x
    by (cases read_csv rule: load_data.cases) (simp_all add: script_def)
  have "empty []" by (simp add: empty_def)
  with returns distinct_reports stops renders no_raise show ?thesis
    by simp blast
qed

theorem load_data_never_raises_witness:
  "load_data (Inl FileNotFoundError) = Inr ([not_found_message], [])
   \<and> script (stable_desc snd) (stable_desc churn_probability) (Inl FileNotFoundError) 0.5
       = Stopped [not_found_message]
   \<and> script (stable_desc snd) (stable_desc churn_probability) (Inl (Exception ''No columns to parse from file'')) 0.5
       = Stopped [unreadable_message ''No columns to parse from file'']
   \<and> script (stable_desc snd) (stable_desc churn_probability) (Inr []) 0.5 = Stopped []
   \<and> script (stable_desc snd) (stable_desc churn_probability) (Inr scenario_A) 0.5
       = Rendered [] (render (stable_desc snd) (stable_desc churn_probability) scenario_A 0.5)"
proof -
  have r: "script (stable_desc snd) (stable_desc churn_probability) (Inr scenario_A) 0.5
       = Rendered [] (render (stable_desc snd) (stable_desc churn_probability) scenario_A 0.5)"
    by (simp add: script_def empty_def scenario_A_def)
  from load_data_never_raises [of "Inl FileNotFoundError" "''x''" "stable_desc snd" "stable_desc churn_probability" "0.5"]
       load_data_never_raises [of "Inl (Exception ''No columns to parse from file'')" "''x''" "stable_desc snd" "stable_desc churn_probability" "0.5"]
       load_data_never_raises [of "Inr []" "''x''" "stable_desc snd" "stable_desc churn_probability" "0.5"]
       load_data_never_raises [of "Inr scenario_A" "''x''" "stable_desc snd" "stable_desc churn_probability" "0.5"]
       r
  show ?thesis by (simp add: empty_def)
qed

subsection \<open>Churn by country\<close>

text \<open>Every key of the grouping occurs in the frame, so every group has its mean.\<close>

lemma map_filter_all_Some:
  "(\<And>x. x \<in> set xs \<Longrightarrow> f x = Some (g x)) \<Longrightarrow> List.map_filter f xs = map g xs"
  by (induction xs) (simp_all add: map_filter_simps)

text \<open>The mean of a group: its churned rows over its rows.\<close>

lemma groupby_mean_eq:
  "groupby_mean D =
     map (\<lambda>k. (k, real (length (filter is_churned (filter (\<lambda>r. PrimaryCountry_Grouped_Original r = k) D)))
                 / real (length (filter (\<lambda>r. PrimaryCountry_Grouped_Original r = k) D))))
       (sort (remdups (map PrimaryCountry_Grouped_Original D)))"
  unfolding groupby_mean_def
proof (rule map_filter_all_Some)
  fix k assume "k \<in> set (sort (remdups (map PrimaryCountry_Grouped_Original D)))"
  then have "filter (\<lambda>r. PrimaryCountry_Grouped_Original r = k) D \<noteq> []"
    by (auto simp: filter_empty_conv)
  then show "map_option (Pair k)
          (mean (map (\<lambda>r. as_number (is_churned r))
             (filter (\<lambda>r. PrimaryCountry_Grouped_Original r = k) D)))
        = Some (k, real (length (filter is_churned (filter (\<lambda>r. PrimaryCountry_Grouped_Original r = k) D)))
                 / real (length (filter (\<lambda>r. PrimaryCountry_Grouped_Original r = k) D)))"
    by (simp add: mean_as_number del: filter_filter)
qed

lemma groupby_mean_keys:
  "map fst (groupby_mean D) = sort (remdups (map PrimaryCountry_Grouped_Original D))"
  by (simp add: groupby_mean_eq comp_def)

lemma churn_by_country_keys:
  "map fst (churn_by_country srt D) = map fst (srt (groupby_mean D))"
  by (simp add: churn_by_country_def comp_def case_prod_unfold)

text \<open>
  C4. \<open>churn_by_country\<close> has exactly one pair per distinct value of
  \<open>PrimaryCountry_Grouped_Original\<close> in the dataset, no country invented or dropped;
  each rate is 100 times the mean of \<open>is_churned\<close> over the rows of its country (the
  churned rows of the country over its rows) and lies in \<open>[0, 100]\<close>; the pairs are in
  non-increasing order of rate. For the UK with five rows of which two churned and
  France with three rows that all churned, the result is France 100.0, then UK 40.0.
\<close>

theorem churn_by_country_correct:
  assumes "sort_values_desc snd srt"
  shows "distinct (map fst (churn_by_country srt D))
    \<and> set (map fst (churn_by_country srt D)) = PrimaryCountry_Grouped_Original ` set D
    \<and> list_all
        (\<lambda>(country, rate).
           rate = 100 * (real (length (filter (\<lambda>r. PrimaryCountry_Grouped_Original r = country \<and> is_churned r) D))
                         / real (length (filter (\<lambda>r. PrimaryCountry_Grouped_Original r = country) D)))
           \<and> 0 \<le> rate \<and> rate \<le> 100)
        (churn_by_country srt D)
    \<and> sorted_wrt (\<lambda>a b. snd b \<le> snd a) (churn_by_country srt D)
    \<and> churn_by_country srt scenario_B = [(''France'', 100.0), (''UK'', 40.0)]"
proof (intro conjI)
  have perm: "mset (map fst (srt (groupby_mean D))) = mset (map fst (groupby_mean D))"
    using assms by (simp add: sort_values_desc_mset)
  have "distinct (map fst (groupby_mean D))"
    by (simp add: groupby_mean_keys)
  with perm show "distinct (map fst (churn_by_country srt D))"
    by (metis churn_by_country_keys mset_eq_imp_distinct_iff)
  from perm have "set (map fst (srt (groupby_mean D))) = set (map fst (groupby_mean D))"
    by (rule mset_eq_setD)
  then show "set (map fst (churn_by_country srt D)) = PrimaryCountry_Grouped_Original ` set D"
    by (simp only: churn_by_country_keys groupby_mean_keys) simp
next
  show "list_all
        (\<lambda>(country, rate).
           rate = 100 * (real (length (filter (\<lambda>r. PrimaryCountry_Grouped_Original r = country \<and> is_churned r) D))
                         / real (length (filter (\<lambda>r. PrimaryCountry_Grouped_Original r = country) D)))
           \<and> 0 \<le> rate \<and> rate \<le> 100)
        (churn_by_country srt D)"
    unfolding list_all_iff
  proof (intro ballI)
    fix x assume "x \<in> set (churn_by_country srt D)"
    then obtain c m where x: "x = (c, m * 100)" and "(c, m) \<in> set (srt (groupby_mean D))"
      by (auto simp: churn_by_country_def)
    with assms have "(c, m) \<in> set (groupby_mean D)"
      by (simp add: sort_values_desc_set)
    then have c: "c \<in> PrimaryCountry_Grouped_Original ` set D"
      and m: "m = real (length (filter is_churned (filter (\<lambda>r. PrimaryCountry_Grouped_Original r = c) D)))
                 / real (length (filter (\<lambda>r. PrimaryCountry_Grouped_Original r = c) D))"
      by (auto simp: groupby_mean_eq)
    from c have ne: "filter (\<lambda>r. PrimaryCountry_Grouped_Original r = c) D \<noteq> []"
      by (auto simp: filter_empty_conv)
    from share_bounds [OF ne, of is_churned] m have "0 \<le> m" "m \<le> 1" by simp_all
    then have bounds: "0 \<le> m * 100" "m * 100 \<le> 100" by simp_all
    have "filter is_churned (filter (\<lambda>r. PrimaryCountry_Grouped_Original r = c) D)
        = filter (\<lambda>r. PrimaryCountry_Grouped_Original r = c \<and> is_churned r) D"
      by (simp add: conj_commute)
    with m have "m * 100 =
        100 * (real (length (filter (\<lambda>r. PrimaryCountry_Grouped_Original r = c \<and> is_churned r) D))
               / real (length (filter (\<lambda>r. PrimaryCountry_Grouped_Original r = c) D)))"
      by (simp only: mult.commute)
    with bounds show "case x of (country, rate) \<Rightarrow>
           rate = 100 * (real (length (filter (\<lambda>r. PrimaryCountry_Grouped_Original r = country \<and> is_churned r) D))
                         / real (length (filter (\<lambda>r. PrimaryCountry_Grouped_Original r = country) D)))
           \<and> 0 \<le> rate \<and> rate \<le> 100"
      unfolding x by (simp only: prod.case)
  qed
next
  have "sorted_wrt (\<lambda>a b. snd b \<le> snd a) (srt (groupby_mean D))"
    using assms by (rule sort_values_desc_sorted)
  then show "sorted_wrt (\<lambda>a b. snd b \<le> snd a) (churn_by_country srt D)"
    by (simp add: churn_by_country_def sorted_wrt_map case_prod_unfold)
next
  have "groupby_mean scenario_B = [(''France'', 1), (''UK'', 2 / 5)]"
    by (simp add: groupby_mean_def scenario_B_def example_row_def mean_def as_number_def
        map_filter_simps)
  moreover have "srt [(''France'', 1), (''UK'', 2 / 5)] = [(''France'', 1), (''UK'', 2 / 5)]"
    using assms by (rule sort_values_desc_pair) simp
  ultimately show "churn_by_country srt scenario_B = [(''France'', 100.0), (''UK'', 40.0)]"
    by (simp add: churn_by_country_def)
qed

theorem churn_by_country_witness:
  "sort_values_desc snd (reversing_desc snd)
   \<and> churn_by_country (reversing_desc snd) scenario_B = [(''France'', 100), (''UK'', 40)]
   \<and> PrimaryCountry_Grouped_Original ` set scenario_B = {''UK'', ''France''}"
proof -
  have "PrimaryCountry_Grouped_Original ` set scenario_B = {''UK'', ''France''}"
    by (auto simp: scenario_B_def example_row_def)
  with churn_by_country_correct [OF reversing_desc_sorts, of scenario_B]
  show ?thesis by (simp add: reversing_desc_sorts)
qed

end
